theory Spec2Isabelle
  imports Complex_Main "HOL-Library.Product_Lexorder" "HOL-Library.Multiset" "HOL-Library.AList"
begin

section \<open>Price records and deal tags (wishlist.py)\<close>

text \<open>
  The dictionary that \<open>itad_get_prices\<close> builds for one game (\<open>price_data\<close>), and the six
  of its keys that \<open>main\<close> copies into a result row (\<open>offer_fields\<close>). Amounts are the JSON
  numbers of the pricing service; they are compared with \<open>\<le>\<close> and \<open><\<close> only, so exact
  rationals stand for them. A baseline is \<open>None\<close> in the source when the service did not
  report it.
\<close>

record offer_fields =
  current_price :: rat
  regular_price :: rat
  discount_percent :: int
  url :: string
  store_low :: "rat option"
  historical_low :: "rat option"

record price_data = offer_fields +
  one_year_low :: "rat option"

type_synonym deal_tag = "string \<times> string"

text \<open>
  The labels of \<open>DEAL_TAGS\<close> and \<open>TAG_ORDER\<close> start with an emoji; a label is the list of
  the bytes of its UTF-8 encoding, as they stand in the source file.
\<close>

definition label_store_low :: string where
  "label_store_low = [CHR 0xF0, CHR 0x9F, CHR 0x94, CHR 0xA5] @ '' Steam All-Time Low''"

definition label_historical_low :: string where
  "label_historical_low = [CHR 0xF0, CHR 0x9F, CHR 0x8F, CHR 0x86] @ '' Cross-Store Low''"

definition label_matching_lowest :: string where
  "label_matching_lowest = [CHR 0xF0, CHR 0x9F, CHR 0x94, CHR 0x81] @ '' Matching Lowest''"

definition label_on_sale :: string where
  "label_on_sale =
     [CHR 0xF0, CHR 0x9F, CHR 0x8F, CHR 0xB7, CHR 0xEF, CHR 0xB8, CHR 0x8F] @ ''  On Sale''"

text \<open>\<open>DEAL_TAGS\<close>: the association list of the source, and the lookup \<open>DEAL_TAGS[k]\<close>,
  which raises \<open>KeyError\<close> (here \<open>None\<close>) on a key that is not there.\<close>

definition DEAL_TAGS :: "(string \<times> deal_tag) list" where
  "DEAL_TAGS =
     [(''store_low'',       (label_store_low,       ''bright_red'')),
      (''historical_low'',  (label_historical_low,  ''dark_orange'')),
      (''matching_lowest'', (label_matching_lowest, ''yellow'')),
      (''on_sale'',         (label_on_sale,         ''green''))]"

definition tag_store_low :: deal_tag where
  "tag_store_low = (label_store_low, ''bright_red'')"

definition tag_historical_low :: deal_tag where
  "tag_historical_low = (label_historical_low, ''dark_orange'')"

definition tag_matching_lowest :: deal_tag where
  "tag_matching_lowest = (label_matching_lowest, ''yellow'')"

definition tag_on_sale :: deal_tag where
  "tag_on_sale = (label_on_sale, ''green'')"

text \<open>\<open>classify_deal\<close>: three guarded comparisons in the order of the source, each
  \<open>x is not None and current <= x\<close>, and the default.\<close>

definition classify_deal :: "price_data \<Rightarrow> deal_tag option" where
  "classify_deal price_data =
     (let current = current_price price_data;
          store_low = store_low price_data;
          hist_low = historical_low price_data;
          one_year_low = one_year_low price_data
      in if store_low \<noteq> None \<and> current \<le> the store_low then map_of DEAL_TAGS ''store_low''
         else if hist_low \<noteq> None \<and> current \<le> the hist_low then map_of DEAL_TAGS ''historical_low''
         else if one_year_low \<noteq> None \<and> current \<le> the one_year_low
              then map_of DEAL_TAGS ''matching_lowest''
         else map_of DEAL_TAGS ''on_sale'')"

text \<open>\<open>TAG_ORDER\<close> and the lookup \<open>TAG_ORDER.get(label, 9)\<close> of \<open>sort_results\<close>.\<close>

definition TAG_ORDER :: "(string \<times> nat) list" where
  "TAG_ORDER =
     [(label_store_low, 0), (label_historical_low, 1),
      (label_matching_lowest, 2), (label_on_sale, 3)]"

definition tag_rank :: "string \<Rightarrow> nat" where
  "tag_rank label = (case map_of TAG_ORDER label of Some n \<Rightarrow> n | None \<Rightarrow> 9)"

text \<open>The first component of the deal sort key: \<open>TAG_ORDER.get(r["deal_tag"][0], 9)\<close>.\<close>

definition severity_rank :: "deal_tag \<Rightarrow> nat" where
  "severity_rank tag = tag_rank (fst tag)"


section \<open>Ranking (wishlist.py, sort_results)\<close>

text \<open>A result row of \<open>main\<close>: the six copied keys, the resolved name and the tag.\<close>

record result = offer_fields +
  name :: string
  deal_tag :: deal_tag

text \<open>
  Python's built-in \<open>sorted(xs, key=f, reverse=b)\<close>. It is a stable sort; the library's
  \<open>sort_key\<close> is the stable insertion sort on the keys. With \<open>reverse=True\<close> the built-in
  reverses the list, sorts it ascending and reverses the outcome, which is what keeps equal
  keys in their input order in a descending sort.
\<close>

definition sorted_py :: "('a \<Rightarrow> 'k::linorder) \<Rightarrow> bool \<Rightarrow> 'a list \<Rightarrow> 'a list" where
  "sorted_py key reverse xs =
     (if reverse then rev (sort_key key (rev xs)) else sort_key key xs)"

text \<open>The key of the default strategy; pairs are ordered lexicographically, as tuples are.\<close>

definition deal_key :: "result \<Rightarrow> nat \<times> rat" where
  "deal_key r = (tag_rank (fst (deal_tag r)), current_price r)"

definition sort_results :: "result list \<Rightarrow> string \<Rightarrow> result list" where
  "sort_results results sort_by =
     (if sort_by = ''discount'' then sorted_py discount_percent True results
      else if sort_by = ''price'' then sorted_py current_price False results
      else sorted_py deal_key False results)"

section \<open>The pricing response and the aggregator (wishlist.py, itad_get_prices)\<close>

text \<open>
  The JSON of the pricing service, typed as the service documents it: amounts are numbers,
  \<open>cut\<close> is an integer, \<open>url\<close> a string. A member that the source indexes with \<open>[...]\<close> is
  always there in a response of this type. A member that the source reads with \<open>.get\<close> is
  an \<open>option\<close>. For \<open>cut\<close>, \<open>url\<close>, \<open>all\<close> and \<open>y1\<close>, which are read with a default,
  \<open>None\<close> says that the key is not in the object. For \<open>id\<close>, \<open>deals\<close>, \<open>historyLow\<close> and
  \<open>storeLow\<close>, which the source reads without a default or tests for truth, \<open>None\<close> says
  that the key is not there or holds null (for \<open>historyLow\<close> and \<open>storeLow\<close> also the empty
  object).
\<close>

record money =
  amount :: rat

record deal =
  deal_price :: money
  deal_regular :: money
  deal_cut :: "int option"
  deal_url :: "string option"
  deal_storeLow :: "money option"

record history_low =
  hl_all :: "money option"
  hl_y1 :: "money option"

record item =
  item_id :: "string option"
  item_deals :: "deal list option"
  item_historyLow :: "history_low option"

text \<open>An HTTP response: the status, the raw text and the decoded JSON.\<close>

record 'a response =
  status_code :: nat
  body_text :: string
  json :: 'a

text \<open>
  Python's built-in \<open>min(xs, key=f)\<close>: the first element is the candidate, and a later one
  replaces it only when its key is strictly smaller. On an empty list it raises
  \<open>ValueError\<close>, here \<open>None\<close>.
\<close>

fun min_scan :: "('a \<Rightarrow> 'k::linorder) \<Rightarrow> 'a \<Rightarrow> 'a list \<Rightarrow> 'a" where
  "min_scan key best [] = best"
| "min_scan key best (d # ds) = min_scan key (if key d < key best then d else best) ds"

fun min_py :: "('a \<Rightarrow> 'k::linorder) \<Rightarrow> 'a list \<Rightarrow> 'a option" where
  "min_py key [] = None"
| "min_py key (d # ds) = Some (min_scan key d ds)"

text \<open>The body of the loop of \<open>itad_get_prices\<close> after the test of \<open>deals\<close>: the record
  built from the best offer of \<open>deals\<close> and the baselines of the item.\<close>

definition price_record :: "item \<Rightarrow> deal list \<Rightarrow> price_data option" where
  "price_record it deals =
     (case min_py (\<lambda>d. amount (deal_price d)) deals of
        None \<Rightarrow> None
      | Some best \<Rightarrow>
          let history_low_obj = (case item_historyLow it of
                                   None \<Rightarrow> \<lparr>hl_all = None, hl_y1 = None\<rparr>
                                 | Some h \<Rightarrow> h);
              historical_low = map_option amount (hl_all history_low_obj);
              one_year_low = map_option amount (hl_y1 history_low_obj);
              steam_store_low_obj = deal_storeLow best;
              store_low = (case steam_store_low_obj of
                             Some m \<Rightarrow> Some (amount m)
                           | None \<Rightarrow> None)
          in Some \<lparr>current_price = amount (deal_price best),
                   regular_price = amount (deal_regular best),
                   discount_percent = (case deal_cut best of None \<Rightarrow> 0 | Some c \<Rightarrow> c),
                   url = (case deal_url best of None \<Rightarrow> '''' | Some u \<Rightarrow> u),
                   store_low = store_low,
                   historical_low = historical_low,
                   one_year_low = one_year_low\<rparr>)"

text \<open>
  The loop over the items of the response. \<open>prices\<close> is a Python dictionary: an association
  list in insertion order, where storing under a key that is there replaces the value in
  place. The key is \<open>item.get("id")\<close>, so it may be \<open>None\<close>. An error of \<open>min\<close> would end
  the loop (\<open>None\<close>).
\<close>

type_synonym prices = "(string option \<times> price_data) list"

fun prices_loop :: "item list \<Rightarrow> prices \<Rightarrow> prices option" where
  "prices_loop [] prices = Some prices"
| "prices_loop (it # items) prices =
     (let game_id = item_id it;
          deals = (case item_deals it of None \<Rightarrow> [] | Some ds \<Rightarrow> ds)
      in if deals = [] then prices_loop items prices
         else (case price_record it deals of
                 None \<Rightarrow> None
               | Some pd \<Rightarrow> prices_loop items (AList.update game_id pd prices)))"

section \<open>Console, requests and exits\<close>

text \<open>What a run does to the outside: the requests it sends, in order, and the lines it
  prints. \<open>sys.exit(n)\<close> and an uncaught exception end the run.\<close>

datatype request =
    GET_wishlist string
  | GET_appdetails string
  | POST_lookup "string list"
  | POST_prices "string list" string

record io =
  requests :: "request list"
  console :: "string list"

datatype stop = Exit nat | Uncaught string

definition send :: "request \<Rightarrow> io \<Rightarrow> io" where
  "send rq w = w\<lparr>requests := requests w @ [rq]\<rparr>"

definition print :: "string \<Rightarrow> io \<Rightarrow> io" where
  "print msg w = w\<lparr>console := console w @ [msg]\<rparr>"

text \<open>The services a run talks to, as functions from the request to the response.\<close>

record wl_item =
  wl_appid :: "int option"

record services =
  get_wishlist :: "string \<Rightarrow> wl_item list response"
  get_appdetails :: "string \<Rightarrow> string option"
  post_lookup :: "string list \<Rightarrow> (string \<times> string option) list response"
  post_prices :: "string list \<Rightarrow> string \<Rightarrow> item list response"

text \<open>\<open>str(n)\<close> of an integer, and \<open>s.upper()\<close> on ASCII letters.\<close>

definition digit_char :: "nat \<Rightarrow> char" where
  "digit_char n = char_of (48 + n)"

function str_of_nat :: "nat \<Rightarrow> string" where
  "str_of_nat n =
     (if n < 10 then [digit_char n] else str_of_nat (n div 10) @ [digit_char (n mod 10)])"
  by pat_completeness auto
termination
  by (relation "measure id") auto

declare str_of_nat.simps [simp del]

definition str_of_int :: "int \<Rightarrow> string" where
  "str_of_int i = (if i < 0 then ''-'' @ str_of_nat (nat (- i)) else str_of_nat (nat i))"

definition upper_char :: "char \<Rightarrow> char" where
  "upper_char c =
     (let n = (of_char c :: nat) in if 97 \<le> n \<and> n \<le> 122 then char_of (n - 32) else c)"

definition upper :: "string \<Rightarrow> string" where
  "upper s = map upper_char s"

text \<open>\<open>s.replace(old, new)\<close> for a non-empty \<open>old\<close>: left to right, without overlap.\<close>

fun str_replace :: "string \<Rightarrow> string \<Rightarrow> string \<Rightarrow> string" where
  "str_replace old new [] = []"
| "str_replace old new (c # cs) =
     (if old \<noteq> [] \<and> take (length old) (c # cs) = old
      then new @ str_replace old new (drop (length old - 1) cs)
      else c # str_replace old new cs)"

definition itad_get_prices ::
  "services \<Rightarrow> string list \<Rightarrow> string \<Rightarrow> io \<Rightarrow> io \<times> (stop + prices)" where
  "itad_get_prices sv itad_ids country w =
     (let w1 = send (POST_prices itad_ids (upper country)) w;
          response = post_prices sv itad_ids (upper country)
      in if status_code response \<noteq> 200
         then (print (''[red]ITAD prices error '' @ str_of_nat (status_code response)
                        @ '':[/red] '' @ take 300 (body_text response)) w1,
               Inl (Exit 1))
         else (case prices_loop (json response) [] of
                 None \<Rightarrow> (w1, Inl (Uncaught ''ValueError''))
               | Some prices \<Rightarrow> (w1, Inr prices)))"

section \<open>The identity resolver (wishlist.py, itad_lookup_ids)\<close>

text \<open>The loop over \<open>data.items()\<close>: a pair whose value is null or the empty string is
  skipped (\<open>if itad_uuid\<close>); the others are stored under the key without \<open>app/\<close>.\<close>

type_synonym id_map = "(string \<times> string) list"

fun lookup_loop :: "(string \<times> string option) list \<Rightarrow> id_map \<Rightarrow> id_map" where
  "lookup_loop [] id_map = id_map"
| "lookup_loop ((shop_id, itad_uuid) # data) id_map =
     (case itad_uuid of
        None \<Rightarrow> lookup_loop data id_map
      | Some u \<Rightarrow>
          if u = [] then lookup_loop data id_map
          else lookup_loop data (AList.update (str_replace ''app/'' '''' shop_id) u id_map))"

definition itad_lookup_ids :: "services \<Rightarrow> string list \<Rightarrow> io \<Rightarrow> io \<times> (stop + id_map)" where
  "itad_lookup_ids sv app_ids w =
     (let shop_ids = map (\<lambda>app_id. ''app/'' @ app_id) app_ids;
          w1 = send (POST_lookup shop_ids) w;
          response = post_lookup sv shop_ids
      in if status_code response \<noteq> 200
         then (print (''[red]ITAD lookup error '' @ str_of_nat (status_code response)
                        @ '':[/red] '' @ take 300 (body_text response)) w1,
               Inl (Exit 1))
         else (w1, Inr (lookup_loop (json response) [])))"

section \<open>The wishlist (wishlist.py, fetch_steam_wishlist)\<close>

text \<open>The loop that resolves the names: one request per application, and the name of the
  answer or \<open>AppID n\<close> when the answer has none or the request fails.\<close>

type_synonym wishlist = "(string \<times> string) list"

fun names_loop :: "services \<Rightarrow> string list \<Rightarrow> wishlist \<Rightarrow> io \<Rightarrow> io \<times> wishlist" where
  "names_loop sv [] games w = (w, games)"
| "names_loop sv (app_id # app_ids) games w =
     (let w1 = send (GET_appdetails app_id) w;
          name = (case get_appdetails sv app_id of
                    Some n \<Rightarrow> n
                  | None \<Rightarrow> ''AppID '' @ app_id)
      in names_loop sv app_ids (AList.update app_id name games) w1)"

definition fetch_steam_wishlist :: "services \<Rightarrow> string \<Rightarrow> io \<Rightarrow> io \<times> (stop + wishlist)" where
  "fetch_steam_wishlist sv steam_id w =
     (let w1 = print (''[cyan]Fetching Steam wishlist for ID:[/cyan] '' @ steam_id) w;
          w2 = send (GET_wishlist steam_id) w1;
          response = get_wishlist sv steam_id
      in if status_code response \<noteq> 200
         then (print (''[red]Steam API error '' @ str_of_nat (status_code response)
                        @ '':[/red] '' @ take 300 (body_text response)) w2,
               Inl (Exit 1))
         else
           let items = json response
           in if items = []
              then (print ''[yellow]Wishlist is empty or Steam returned no items.[/yellow]'' w2,
                    Inr [])
              else
                let app_ids = map (\<lambda>i. str_of_int (the (wl_appid i)))
                                  (filter (\<lambda>i. wl_appid i \<noteq> None) items);
                    w3 = print (''[green]Found '' @ str_of_nat (length app_ids)
                                 @ '' games in wishlist.[/green]'') w2;
                    w4 = print ''[cyan]Resolving game names...[/cyan]'' w3;
                    (w5, games) = names_loop sv app_ids [] w4
                in (w5, Inr games))"

section \<open>The run (wishlist.py, main)\<close>

record config =
  STEAM_ID :: "string option"
  STEAM_API_KEY :: "string option"
  ITAD_API_KEY :: "string option"
  COUNTRY :: string

text \<open>\<open>not x\<close> for a setting of the environment: unset or empty.\<close>

definition unset :: "string option \<Rightarrow> bool" where
  "unset x = (x = None \<or> x = Some [])"

text \<open>The loop that assembles the results, one row per entry of \<open>prices\<close>.\<close>

fun results_loop :: "wishlist \<Rightarrow> id_map \<Rightarrow> prices \<Rightarrow> result list option" where
  "results_loop wishlist itad_to_steam [] = Some []"
| "results_loop wishlist itad_to_steam ((itad_id, price_d) # prices) =
     (let steam_app_id = (case itad_id of
                            None \<Rightarrow> ''''
                          | Some i \<Rightarrow> (case map_of itad_to_steam i of
                                        None \<Rightarrow> ''''
                                      | Some a \<Rightarrow> a));
          name = (case map_of wishlist steam_app_id of
                    Some n \<Rightarrow> n
                  | None \<Rightarrow> ''ITAD:'' @ (case itad_id of None \<Rightarrow> ''None'' | Some i \<Rightarrow> i))
      in (case classify_deal price_d of
           None \<Rightarrow> None
         | Some tag \<Rightarrow>
             (case results_loop wishlist itad_to_steam prices of
                None \<Rightarrow> None
              | Some rest \<Rightarrow>
                  Some (\<lparr>current_price = current_price price_d,
                         regular_price = regular_price price_d,
                         discount_percent = discount_percent price_d,
                         url = url price_d,
                         store_low = store_low price_d,
                         historical_low = historical_low price_d,
                         name = name,
                         deal_tag = tag\<rparr> # rest))))"

text \<open>\<open>display_results\<close> renders a table. The rows of the table are not kept here: of
  the output there is the message for an empty list and, for a list with rows, the empty
  line before the table and the closing line. Both messages start with a newline, as in
  the source.\<close>

definition display_results :: "config \<Rightarrow> result list \<Rightarrow> string \<Rightarrow> io \<Rightarrow> io" where
  "display_results cfg results sort_by w =
     (if results = []
      then print (CHR 0x0A
                    # ''[yellow]No wishlist games are currently on sale on Steam.[/yellow]'') w
      else
        let sort_label = (if sort_by = ''deal'' then ''Best Deal''
                          else if sort_by = ''discount'' then ''Discount %''
                          else if sort_by = ''price'' then ''Price''
                          else sort_by);
            w1 = print '''' w
        in print (CHR 0x0A # ''[dim]'' @ str_of_nat (length results)
                    @ '' games on sale | country: '' @ upper (COUNTRY cfg)
                    @ '' | sorted by: '' @ sort_label @ ''[/dim]'') w1)"

definition main :: "config \<Rightarrow> services \<Rightarrow> string \<Rightarrow> io \<Rightarrow> io \<times> (stop + result list)" where
  "main cfg sv sort_by w =
     (if unset (STEAM_ID cfg)
      then (print ''[red]Error:[/red] STEAM_ID is not set in your .env file.'' w, Inl (Exit 1))
      else if unset (STEAM_API_KEY cfg)
      then (print ''Get one free at: https://steamcommunity.com/dev/apikey''
              (print ''[red]Error:[/red] STEAM_API_KEY is not set in your .env file.'' w),
            Inl (Exit 1))
      else if unset (ITAD_API_KEY cfg)
      then (print ''Get one free at: https://isthereanydeal.com/apps/my/''
              (print ''[red]Error:[/red] ITAD_KEY is not set in your .env file.'' w),
            Inl (Exit 1))
      else
        case fetch_steam_wishlist sv (the (STEAM_ID cfg)) w of
          (w1, Inl e) \<Rightarrow> (w1, Inl e)
        | (w1, Inr wishlist) \<Rightarrow>
            if wishlist = [] then (w1, Inl (Exit 0))
            else
              let app_ids = map fst wishlist;
                  w2 = print ''[cyan]Resolving ITAD game IDs...[/cyan]'' w1
              in (case itad_lookup_ids sv app_ids w2 of
                   (w3, Inl e) \<Rightarrow> (w3, Inl e)
                 | (w3, Inr steam_to_itad) \<Rightarrow>
                     let itad_to_steam = fold (\<lambda>(k, v). AList.update v k) steam_to_itad [];
                         itad_ids = map snd steam_to_itad
                     in if itad_ids = []
                        then (print ''[red]No games resolved via ITAD. Check your API key.[/red]'' w3,
                              Inl (Exit 1))
                        else
                          let w4 = print (''[green]Resolved '' @ str_of_nat (length itad_ids)
                                           @ '' / '' @ str_of_nat (length app_ids)
                                           @ '' games.[/green]'') w3;
                              w5 = print (''[cyan]Fetching prices for country:[/cyan] ''
                                           @ upper (COUNTRY cfg)) w4
                          in (case itad_get_prices sv itad_ids (COUNTRY cfg) w5 of
                               (w6, Inl e) \<Rightarrow> (w6, Inl e)
                             | (w6, Inr prices) \<Rightarrow>
                                 if prices = []
                                 then (print ''[yellow]None of your wishlisted games are currently on sale.[/yellow]'' w6,
                                       Inl (Exit 0))
                                 else (case results_loop wishlist itad_to_steam prices of
                                         None \<Rightarrow> (w6, Inl (Uncaught ''KeyError''))
                                       | Some results \<Rightarrow>
                                           let results = sort_results results sort_by
                                           in (display_results cfg results sort_by w6, Inr results)))))"

section \<open>The owned-library table (sync.py)\<close>

text \<open>
  A game of the owned-games response; \<open>appid\<close> and \<open>name\<close> are indexed, the two others are
  read with a default of 0. A row of the table \<open>games\<close> is the tuple that the script passes
  to \<open>INSERT OR REPLACE\<close>: appid, name, playtime_forever, last_played, installed.
\<close>

record game =
  game_appid :: int
  game_name :: string
  game_playtime_forever :: "int option"
  game_rtime_last_played :: "int option"

type_synonym row = "int \<times> string \<times> int \<times> int \<times> int"

text \<open>The database file: \<open>None\<close> before the table exists, else its rows. The column
  \<open>appid\<close> is the primary key.\<close>

type_synonym db = "row list option"

definition create_table_if_not_exists :: "db \<Rightarrow> row list" where
  "create_table_if_not_exists d = (case d of None \<Rightarrow> [] | Some t \<Rightarrow> t)"

text \<open>\<open>INSERT OR REPLACE\<close>: the rows that conflict with the new one on the primary key
  are deleted, then the new row is inserted.\<close>

definition insert_or_replace :: "row \<Rightarrow> row list \<Rightarrow> row list" where
  "insert_or_replace r t = filter (\<lambda>x. fst x \<noteq> fst r) t @ [r]"

text \<open>The row of one game; \<open>manifest_exists appid\<close> is \<open>os.path.exists\<close> on the manifest
  file of the application.\<close>

definition game_row :: "(int \<Rightarrow> bool) \<Rightarrow> game \<Rightarrow> row" where
  "game_row manifest_exists g =
     (let appid = game_appid g;
          last_played = (case game_rtime_last_played g of None \<Rightarrow> 0 | Some t \<Rightarrow> t);
          installed = (if manifest_exists appid then 1 else 0)
      in (appid, game_name g,
          (case game_playtime_forever g of None \<Rightarrow> 0 | Some p \<Rightarrow> p),
          last_played, installed))"

fun upsert_loop :: "(int \<Rightarrow> bool) \<Rightarrow> game list \<Rightarrow> row list \<Rightarrow> row list" where
  "upsert_loop manifest_exists [] t = t"
| "upsert_loop manifest_exists (g # games) t =
     upsert_loop manifest_exists games (insert_or_replace (game_row manifest_exists g) t)"

text \<open>The script: the check of the environment, the request with \<open>raise_for_status\<close>, the
  table, the loop, the commit. An exception before the connection leaves the file as it
  was.\<close>

definition sync ::
  "string option \<Rightarrow> string option \<Rightarrow> game list option response \<Rightarrow> (int \<Rightarrow> bool) \<Rightarrow> db
     \<Rightarrow> db \<times> (stop + string)" where
  "sync api_key steam_id response manifest_exists d =
     (if unset api_key \<or> unset steam_id then (d, Inl (Uncaught ''ValueError''))
      else if 400 \<le> status_code response \<and> status_code response < 600
      then (d, Inl (Uncaught ''HTTPError''))
      else
        let games = (case json response of None \<Rightarrow> [] | Some gs \<Rightarrow> gs);
            t = create_table_if_not_exists d;
            t' = upsert_loop manifest_exists games t
        in (Some t',
            Inr (''Updated '' @ str_of_nat (length games) @ '' games in steam_games.db'')))"

text \<open>The invariant of the primary key on a database file.\<close>

definition pk_unique :: "db \<Rightarrow> bool" where
  "pk_unique d = (case d of None \<Rightarrow> True | Some t \<Rightarrow> distinct (map fst t))"

section \<open>Concrete inputs\<close>

definition pd_both_lows :: price_data where
  "pd_both_lows =
     \<lparr>current_price = 5, regular_price = 10, discount_percent = 50, url = '''',
      store_low = Some 5, historical_low = Some 6, one_year_low = None\<rparr>"

definition pd_no_lows :: price_data where
  "pd_no_lows =
     \<lparr>current_price = 5, regular_price = 10, discount_percent = 50, url = '''',
      store_low = None, historical_low = None, one_year_low = None\<rparr>"

definition res_X :: result where
  "res_X = \<lparr>current_price = 900, regular_price = 1800, discount_percent = 50, url = '''',
            store_low = None, historical_low = None, name = ''X'', deal_tag = tag_on_sale\<rparr>"

definition res_Y :: result where
  "res_Y = \<lparr>current_price = 1500, regular_price = 2000, discount_percent = 25, url = '''',
            store_low = None, historical_low = Some 1500, name = ''Y'',
            deal_tag = tag_historical_low\<rparr>"

definition res_Z :: result where
  "res_Z = \<lparr>current_price = 1, regular_price = 2, discount_percent = 50, url = '''',
            store_low = None, historical_low = None, name = ''Z'',
            deal_tag = (''Flash Sale'', ''blue'')\<rparr>"

definition res_W :: result where
  "res_W = \<lparr>current_price = 900, regular_price = 1200, discount_percent = 25, url = '''',
            store_low = None, historical_low = None, name = ''W'', deal_tag = tag_on_sale\<rparr>"

definition deal_7 :: deal where
  "deal_7 = \<lparr>deal_price = \<lparr>amount = 7\<rparr>, deal_regular = \<lparr>amount = 10\<rparr>, deal_cut = Some 30,
             deal_url = Some ''https://example.org/a'', deal_storeLow = Some \<lparr>amount = 4\<rparr>\<rparr>"

definition deal_5_bare :: deal where
  "deal_5_bare = \<lparr>deal_price = \<lparr>amount = 5\<rparr>, deal_regular = \<lparr>amount = 10\<rparr>, deal_cut = None,
                  deal_url = None, deal_storeLow = None\<rparr>"

definition deal_5_cut :: deal where
  "deal_5_cut = \<lparr>deal_price = \<lparr>amount = 5\<rparr>, deal_regular = \<lparr>amount = 10\<rparr>, deal_cut = Some 50,
                 deal_url = Some ''https://example.org/b'', deal_storeLow = Some \<lparr>amount = 5\<rparr>\<rparr>"

definition item_u1 :: item where
  "item_u1 = \<lparr>item_id = Some ''u1'', item_deals = Some [deal_7, deal_5_bare, deal_5_cut],
              item_historyLow = Some \<lparr>hl_all = Some \<lparr>amount = 3\<rparr>, hl_y1 = None\<rparr>\<rparr>"

definition item_u2 :: item where
  "item_u2 = \<lparr>item_id = Some ''u2'', item_deals = Some [], item_historyLow = None\<rparr>"

definition sv_demo :: services where
  "sv_demo = \<lparr>get_wishlist = (\<lambda>steam_id. \<lparr>status_code = 200, body_text = '''',
                                          json = [\<lparr>wl_appid = Some 20\<rparr>]\<rparr>),
              get_appdetails = (\<lambda>app_id. Some ''Beta''),
              post_lookup = (\<lambda>shop_ids. \<lparr>status_code = 200, body_text = '''',
                                         json = map (\<lambda>s. (s, None)) shop_ids\<rparr>),
              post_prices = (\<lambda>itad_ids country. \<lparr>status_code = 200, body_text = '''',
                                                 json = [item_u1, item_u2]\<rparr>)\<rparr>"

definition io_start :: io where
  "io_start = \<lparr>requests = [], console = []\<rparr>"

definition cfg_demo :: config where
  "cfg_demo = \<lparr>STEAM_ID = Some ''76561198000000000'', STEAM_API_KEY = Some ''steam-key'',
               ITAD_API_KEY = Some ''itad-key'', COUNTRY = ''BR''\<rparr>"

definition game_portal :: game where
  "game_portal = \<lparr>game_appid = 400, game_name = ''Portal'', game_playtime_forever = Some 120,
                  game_rtime_last_played = None\<rparr>"

definition owned_response :: "game list option response" where
  "owned_response = \<lparr>status_code = 200, body_text = '''', json = Some [game_portal]\<rparr>"

definition no_manifest :: "int \<Rightarrow> bool" where
  "no_manifest appid = False"

definition portal_manifest :: "int \<Rightarrow> bool" where
  "portal_manifest appid = (appid = 400)"

definition pd_u1 :: price_data where
  "pd_u1 = \<lparr>current_price = 5, regular_price = 10, discount_percent = 0, url = '''',
            store_low = None, historical_low = Some 3, one_year_low = None\<rparr>"

section \<open>Properties of the classifier\<close>

lemma DEAL_TAGS_lookups:
  "map_of DEAL_TAGS ''store_low'' = Some tag_store_low"
  "map_of DEAL_TAGS ''historical_low'' = Some tag_historical_low"
  "map_of DEAL_TAGS ''matching_lowest'' = Some tag_matching_lowest"
  "map_of DEAL_TAGS ''on_sale'' = Some tag_on_sale"
  by (simp_all add: DEAL_TAGS_def tag_store_low_def tag_historical_low_def
      tag_matching_lowest_def tag_on_sale_def)

lemma tag_rank_defined:
  "tag_rank label_store_low = 0"
  "tag_rank label_historical_low = 1"
  "tag_rank label_matching_lowest = 2"
  "tag_rank label_on_sale = 3"
  by (simp_all add: tag_rank_def TAG_ORDER_def label_store_low_def label_historical_low_def
      label_matching_lowest_def label_on_sale_def)

lemma severity_rank_of_tags:
  "severity_rank tag_store_low = 0"
  "severity_rank tag_historical_low = 1"
  "severity_rank tag_matching_lowest = 2"
  "severity_rank tag_on_sale = 3"
  by (simp_all add: severity_rank_def tag_rank_defined tag_store_low_def tag_historical_low_def
      tag_matching_lowest_def tag_on_sale_def)

text \<open>
  C2. The tier conditions are tried in the order store low, cross-store historical low,
  one-year low, default, and the first that holds decides. A record whose store-low
  condition holds gets the tag of rank 0 whatever the other baselines say, so also when
  the condition of tier 1 holds too; the tag of rank 1 is given when the condition of tier 0
  fails and that of tier 1 holds; the tag of rank 2 when those of tiers 0 and 1 fail and that
  of tier 2 holds; the tag of rank 3 when all three fail.
\<close>

theorem classify_deal_precedence:
  "((\<exists>l. store_low pd = Some l \<and> current_price pd \<le> l)
      \<longrightarrow> classify_deal pd = Some tag_store_low \<and> severity_rank tag_store_low = 0)
 \<and> (\<not> (\<exists>l. store_low pd = Some l \<and> current_price pd \<le> l)
      \<and> (\<exists>l. historical_low pd = Some l \<and> current_price pd \<le> l)
      \<longrightarrow> classify_deal pd = Some tag_historical_low \<and> severity_rank tag_historical_low = 1)
 \<and> (\<not> (\<exists>l. store_low pd = Some l \<and> current_price pd \<le> l)
      \<and> \<not> (\<exists>l. historical_low pd = Some l \<and> current_price pd \<le> l)
      \<and> (\<exists>l. one_year_low pd = Some l \<and> current_price pd \<le> l)
      \<longrightarrow> classify_deal pd = Some tag_matching_lowest \<and> severity_rank tag_matching_lowest = 2)
 \<and> (\<not> (\<exists>l. store_low pd = Some l \<and> current_price pd \<le> l)
      \<and> \<not> (\<exists>l. historical_low pd = Some l \<and> current_price pd \<le> l)
      \<and> \<not> (\<exists>l. one_year_low pd = Some l \<and> current_price pd \<le> l)
      \<longrightarrow> classify_deal pd = Some tag_on_sale \<and> severity_rank tag_on_sale = 3)"
  by (auto simp: classify_deal_def Let_def DEAL_TAGS_lookups severity_rank_of_tags)

theorem classify_deal_precedence_witness:
  "(\<exists>l. store_low pd_both_lows = Some l \<and> current_price pd_both_lows \<le> l)
 \<and> (\<exists>l. historical_low pd_both_lows = Some l \<and> current_price pd_both_lows \<le> l)
 \<and> classify_deal pd_both_lows = Some tag_store_low
 \<and> severity_rank tag_store_low = 0"
  using classify_deal_precedence [of pd_both_lows]
  by (simp add: pd_both_lows_def)

lemma classify_deal_cases:
  "classify_deal pd = Some tag_store_low \<and> store_low pd \<noteq> None \<and> current_price pd \<le> the (store_low pd)
 \<or> classify_deal pd = Some tag_historical_low \<and> historical_low pd \<noteq> None \<and> current_price pd \<le> the (historical_low pd)
 \<or> classify_deal pd = Some tag_matching_lowest \<and> one_year_low pd \<noteq> None \<and> current_price pd \<le> the (one_year_low pd)
 \<or> classify_deal pd = Some tag_on_sale"
  by (simp add: classify_deal_def Let_def DEAL_TAGS_lookups)

text \<open>
  C6. The classifier returns a tag on every price record, and the tag is one of the four
  of the table, with a rank among 0, 1, 2, 3. A record without store low never gets
  rank 0, one without historical low never rank 1, one without one-year low never rank 2.
\<close>

theorem classify_deal_total:
  "\<exists>tag. classify_deal pd = Some tag
     \<and> tag \<in> {tag_store_low, tag_historical_low, tag_matching_lowest, tag_on_sale}
     \<and> severity_rank tag \<in> {0, 1, 2, 3}
     \<and> (store_low pd = None \<longrightarrow> severity_rank tag \<noteq> 0)
     \<and> (historical_low pd = None \<longrightarrow> severity_rank tag \<noteq> 1)
     \<and> (one_year_low pd = None \<longrightarrow> severity_rank tag \<noteq> 2)"
proof -
  consider
      (t0) "classify_deal pd = Some tag_store_low" "store_low pd \<noteq> None"
    | (t1) "classify_deal pd = Some tag_historical_low" "historical_low pd \<noteq> None"
    | (t2) "classify_deal pd = Some tag_matching_lowest" "one_year_low pd \<noteq> None"
    | (t3) "classify_deal pd = Some tag_on_sale"
    using classify_deal_cases [of pd] by blast
  then show ?thesis
  proof cases
    case t0
    then show ?thesis
      by (intro exI [of _ tag_store_low]) (simp add: severity_rank_of_tags)
  next
    case t1
    then show ?thesis
      by (intro exI [of _ tag_historical_low]) (simp add: severity_rank_of_tags)
  next
    case t2
    then show ?thesis
      by (intro exI [of _ tag_matching_lowest]) (simp add: severity_rank_of_tags)
  next
    case t3
    then show ?thesis
      by (intro exI [of _ tag_on_sale]) (simp add: severity_rank_of_tags)
  qed
qed

theorem classify_deal_total_witness:
  "store_low pd_no_lows = None \<and> historical_low pd_no_lows = None \<and> one_year_low pd_no_lows = None
 \<and> classify_deal pd_no_lows = Some tag_on_sale \<and> severity_rank tag_on_sale = 3"
  using classify_deal_total [of pd_no_lows]
  by (simp add: pd_no_lows_def classify_deal_def DEAL_TAGS_lookups severity_rank_of_tags)

section \<open>Properties of the ranker\<close>

lemma tag_rank_unknown:
  "label \<notin> {label_store_low, label_historical_low, label_matching_lowest, label_on_sale}
     \<Longrightarrow> tag_rank label = 9"
  by (simp add: tag_rank_def TAG_ORDER_def)

lemma sorted_map_pairs:
  "sorted (map f xs) \<Longrightarrow> i < j \<Longrightarrow> j < length xs \<Longrightarrow> f (xs ! i) \<le> f (xs ! j)"
  by (metis length_map nth_map order.strict_trans sorted_iff_nth_mono less_imp_le)

text \<open>
  C4. Under the strategy \<open>deal\<close>, and under every strategy name other than \<open>discount\<close> and
  \<open>price\<close>, the ranker returns a permutation of the results that is sorted ascending by
  the pair (rank of the label, current price): of two rows the earlier has the smaller
  rank, or the same rank and a price that is not greater. A label that is not one of the
  four defined ones has rank 9, and every defined label has a rank below 9, so such a row
  comes after the rows of all defined tiers and the ranker does not fail on it.
\<close>

theorem sort_results_deal:
  assumes "sort_by \<noteq> ''discount''" and "sort_by \<noteq> ''price''"
  shows "mset (sort_results rs sort_by) = mset rs
       \<and> sorted (map deal_key (sort_results rs sort_by))
       \<and> (\<forall>i j. i < j \<and> j < length rs \<longrightarrow>
            (let a = sort_results rs sort_by ! i; b = sort_results rs sort_by ! j
             in tag_rank (fst (deal_tag a)) < tag_rank (fst (deal_tag b))
              \<or> tag_rank (fst (deal_tag a)) = tag_rank (fst (deal_tag b))
                \<and> current_price a \<le> current_price b))
       \<and> (\<forall>r. fst (deal_tag r)
                 \<notin> {label_store_low, label_historical_low, label_matching_lowest, label_on_sale}
              \<longrightarrow> fst (deal_key r) = 9)
       \<and> (\<forall>l \<in> {label_store_low, label_historical_low, label_matching_lowest, label_on_sale}.
            tag_rank l < 9)"
proof -
  let ?out = "sort_results rs sort_by"
  have out: "?out = sort_key deal_key rs"
    using assms by (simp add: sort_results_def sorted_py_def)
  have perm: "mset ?out = mset rs"
    by (simp add: out)
  have srt: "sorted (map deal_key ?out)"
    by (simp add: out)
  have pairs: "\<forall>i j. i < j \<and> j < length rs \<longrightarrow>
            (let a = ?out ! i; b = ?out ! j
             in tag_rank (fst (deal_tag a)) < tag_rank (fst (deal_tag b))
              \<or> tag_rank (fst (deal_tag a)) = tag_rank (fst (deal_tag b))
                \<and> current_price a \<le> current_price b)"
  proof (intro allI impI)
    fix i j
    assume ij: "i < j \<and> j < length rs"
    have len: "length ?out = length rs"
      by (simp add: out)
    have "deal_key (?out ! i) \<le> deal_key (?out ! j)"
      using sorted_map_pairs [OF srt, of i j] ij len by simp
    then show "let a = ?out ! i; b = ?out ! j
             in tag_rank (fst (deal_tag a)) < tag_rank (fst (deal_tag b))
              \<or> tag_rank (fst (deal_tag a)) = tag_rank (fst (deal_tag b))
                \<and> current_price a \<le> current_price b"
      by (auto simp: deal_key_def Let_def)
  qed
  have unknown: "\<forall>r. fst (deal_tag r)
                 \<notin> {label_store_low, label_historical_low, label_matching_lowest, label_on_sale}
              \<longrightarrow> fst (deal_key r) = 9"
    by (simp add: deal_key_def tag_rank_unknown)
  have known: "\<forall>l \<in> {label_store_low, label_historical_low, label_matching_lowest, label_on_sale}.
            tag_rank l < 9"
    by (simp add: tag_rank_defined)
  from perm srt pairs unknown known show ?thesis
    by blast
qed

theorem sort_results_deal_witness:
  "''deal'' \<noteq> ''discount'' \<and> ''deal'' \<noteq> ''price''
 \<and> sort_results [res_Z, res_X, res_Y, res_W] ''deal'' = [res_Y, res_X, res_W, res_Z]
 \<and> fst (deal_tag res_Z)
      \<notin> {label_store_low, label_historical_low, label_matching_lowest, label_on_sale}
 \<and> map deal_key [res_Y, res_X, res_W, res_Z] = [(1, 1500), (3, 900), (3, 900), (9, 1)]"
  using sort_results_deal [of "''deal''" "[res_Z, res_X, res_Y, res_W]"]
  by (simp add: sort_results_def sorted_py_def sort_key_def deal_key_def tag_rank_def TAG_ORDER_def
      res_X_def res_Y_def res_Z_def res_W_def tag_on_sale_def tag_historical_low_def
      label_store_low_def label_historical_low_def label_matching_lowest_def label_on_sale_def)

text \<open>
  C8. Under the strategies \<open>price\<close> and \<open>discount\<close> the ranker is stable: the rows of any
  one key value (one current price, one discount percentage) stand in the output in the
  order they have in the input. The output is a permutation of the input, ascending by
  price under \<open>price\<close> and descending by discount under \<open>discount\<close>.
\<close>

theorem sort_results_stable:
  "filter (\<lambda>r. current_price r = p) (sort_results rs ''price'')
     = filter (\<lambda>r. current_price r = p) rs
 \<and> filter (\<lambda>r. discount_percent r = c) (sort_results rs ''discount'')
     = filter (\<lambda>r. discount_percent r = c) rs
 \<and> sorted (map current_price (sort_results rs ''price''))
 \<and> sorted (rev (map discount_percent (sort_results rs ''discount'')))
 \<and> mset (sort_results rs ''price'') = mset rs
 \<and> mset (sort_results rs ''discount'') = mset rs"
proof -
  have price: "sort_results rs ''price'' = sort_key current_price rs"
    by (simp add: sort_results_def sorted_py_def)
  have discount: "sort_results rs ''discount'' = rev (sort_key discount_percent (rev rs))"
    by (simp add: sort_results_def sorted_py_def)
  have "filter (\<lambda>r. discount_percent r = c) (rev (sort_key discount_percent (rev rs)))
          = rev (filter (\<lambda>r. discount_percent r = c) (sort_key discount_percent (rev rs)))"
    by (simp add: rev_filter)
  also have "\<dots> = rev (filter (\<lambda>r. discount_percent r = c) (rev rs))"
    by (simp only: sort_key_stable)
  also have "\<dots> = filter (\<lambda>r. discount_percent r = c) rs"
    by (simp add: rev_filter)
  finally have stable_discount:
    "filter (\<lambda>r. discount_percent r = c) (sort_results rs ''discount'')
       = filter (\<lambda>r. discount_percent r = c) rs"
    by (simp only: discount)
  have stable_price:
    "filter (\<lambda>r. current_price r = p) (sort_results rs ''price'')
       = filter (\<lambda>r. current_price r = p) rs"
    by (simp only: price sort_key_stable)
  have "sorted (map current_price (sort_results rs ''price''))"
    by (simp add: price)
  moreover have "sorted (rev (map discount_percent (sort_results rs ''discount'')))"
    by (simp add: discount rev_map)
  moreover have "mset (sort_results rs ''price'') = mset rs"
    by (simp add: price)
  moreover have "mset (sort_results rs ''discount'') = mset rs"
    by (simp add: discount)
  ultimately show ?thesis
    using stable_discount stable_price by blast
qed

theorem sort_results_stable_witness:
  "sort_results [res_Z, res_X, res_Y, res_W] ''price'' = [res_Z, res_X, res_W, res_Y]
 \<and> sort_results [res_Y, res_Z, res_W, res_X] ''discount'' = [res_Z, res_X, res_Y, res_W]
 \<and> current_price res_X = current_price res_W
 \<and> discount_percent res_Z = discount_percent res_X
 \<and> discount_percent res_Y = discount_percent res_W"
  using sort_results_stable [of 900 "[res_Z, res_X, res_Y, res_W]" 50]
  by (simp add: sort_results_def sorted_py_def sort_key_def
      res_X_def res_Y_def res_Z_def res_W_def)

section \<open>Properties of the aggregator\<close>

lemma min_scan_mem: "min_scan key b ds \<in> set (b # ds)"
  by (induction ds arbitrary: b) auto

lemma min_scan_le_start: "key (min_scan key b ds) \<le> key b"
proof (induction ds arbitrary: b)
  case Nil
  then show ?case by simp
next
  case (Cons d ds)
  have "key (min_scan key (if key d < key b then d else b) ds)
          \<le> key (if key d < key b then d else b)"
    by (rule Cons.IH)
  also have "\<dots> \<le> key b"
    by auto
  finally show ?case by simp
qed

lemma min_scan_le: "d \<in> set (b # ds) \<Longrightarrow> key (min_scan key b ds) \<le> key d"
proof (induction ds arbitrary: b)
  case Nil
  then show ?case by simp
next
  case (Cons x ds)
  let ?c = "if key x < key b then x else b"
  have start: "key (min_scan key ?c ds) \<le> key ?c"
    by (rule min_scan_le_start)
  from Cons.prems consider "d = b" | "d = x" | "d \<in> set ds"
    by auto
  then show ?case
  proof cases
    case 1
    with start show ?thesis by (auto split: if_splits)
  next
    case 2
    with start show ?thesis by (auto split: if_splits)
  next
    case 3
    then have "key (min_scan key ?c ds) \<le> key d"
      using Cons.IH [of ?c] by simp
    then show ?thesis by simp
  qed
qed

text \<open>The offer that \<open>min\<close> returns stands at an index before which every key is
  strictly greater.\<close>

lemma min_scan_first:
  "\<exists>i < length (b # ds). min_scan key b ds = (b # ds) ! i
      \<and> (\<forall>j < i. key ((b # ds) ! i) < key ((b # ds) ! j))"
proof (induction ds arbitrary: b)
  case Nil
  then show ?case by simp
next
  case (Cons x ds)
  let ?c = "if key x < key b then x else b"
  obtain i where i: "i < length (?c # ds)" "min_scan key ?c ds = (?c # ds) ! i"
    "\<forall>j < i. key ((?c # ds) ! i) < key ((?c # ds) ! j)"
    using Cons.IH [of ?c] by blast
  show ?case
  proof (cases i)
    case 0
    with i have res: "min_scan key b (x # ds) = ?c"
      by simp
    show ?thesis
    proof (cases "key x < key b")
      case True
      with res have "min_scan key b (x # ds) = (b # x # ds) ! 1"
        by simp
      moreover have "\<forall>j < (1::nat). key ((b # x # ds) ! 1) < key ((b # x # ds) ! j)"
        using True by simp
      ultimately show ?thesis
        by (intro exI [of _ 1]) simp
    next
      case False
      with res have "min_scan key b (x # ds) = (b # x # ds) ! 0"
        by simp
      then show ?thesis
        by (intro exI [of _ 0]) simp
    qed
  next
    case (Suc k)
    with i have res: "min_scan key b (x # ds) = (b # x # ds) ! Suc (Suc k)"
      by simp
    have k: "Suc (Suc k) < length (b # x # ds)"
      using i Suc by simp
    have below_c: "key (ds ! k) < key ?c"
      using i(3) Suc by auto
    have "\<forall>j < Suc (Suc k). key ((b # x # ds) ! Suc (Suc k)) < key ((b # x # ds) ! j)"
    proof (intro allI impI)
      fix j
      assume j: "j < Suc (Suc k)"
      show "key ((b # x # ds) ! Suc (Suc k)) < key ((b # x # ds) ! j)"
      proof (cases j)
        case 0
        with below_c show ?thesis by (auto split: if_splits)
      next
        case (Suc j')
        show ?thesis
        proof (cases j')
          case 0
          with Suc below_c show ?thesis by (auto split: if_splits)
        next
          case (Suc m)
          then have "Suc m < i"
            using j \<open>j = Suc j'\<close> \<open>i = Suc k\<close> by simp
          then have "key ((?c # ds) ! i) < key ((?c # ds) ! Suc m)"
            using i(3) by blast
          then show ?thesis
            using \<open>j = Suc j'\<close> Suc \<open>i = Suc k\<close> by simp
        qed
      qed
    qed
    with res k show ?thesis
      by blast
  qed
qed

lemma min_py_first:
  assumes "deals \<noteq> []"
  shows "\<exists>i < length deals. min_py key deals = Some (deals ! i)
           \<and> (\<forall>j < length deals. key (deals ! i) \<le> key (deals ! j))
           \<and> (\<forall>j < i. key (deals ! i) < key (deals ! j))"
proof -
  from assms obtain b ds where deals: "deals = b # ds"
    by (cases deals) auto
  obtain i where i: "i < length (b # ds)" "min_scan key b ds = (b # ds) ! i"
    "\<forall>j < i. key ((b # ds) ! i) < key ((b # ds) ! j)"
    using min_scan_first [of b ds key] by blast
  have "\<forall>j < length (b # ds). key ((b # ds) ! i) \<le> key ((b # ds) ! j)"
  proof (intro allI impI)
    fix j
    assume "j < length (b # ds)"
    then have "(b # ds) ! j \<in> set (b # ds)"
      by (rule nth_mem)
    then have "key (min_scan key b ds) \<le> key ((b # ds) ! j)"
      by (rule min_scan_le)
    then show "key ((b # ds) ! i) \<le> key ((b # ds) ! j)"
      by (simp only: i(2))
  qed
  with i show ?thesis
    unfolding deals by (intro exI [of _ i]) simp
qed

lemma price_record_of_best:
  "min_py (\<lambda>d. amount (deal_price d)) deals = Some best \<Longrightarrow>
   \<exists>pd. price_record it deals = Some pd
      \<and> current_price pd = amount (deal_price best)
      \<and> regular_price pd = amount (deal_regular best)
      \<and> discount_percent pd = (case deal_cut best of None \<Rightarrow> 0 | Some c \<Rightarrow> c)
      \<and> url pd = (case deal_url best of None \<Rightarrow> [] | Some u \<Rightarrow> u)
      \<and> store_low pd = map_option amount (deal_storeLow best)"
  by (simp add: price_record_def Let_def split: option.splits)

lemma price_record_total: "deals \<noteq> [] \<Longrightarrow> \<exists>pd. price_record it deals = Some pd"
  by (cases deals) (simp_all add: price_record_def Let_def)

lemma prices_loop_total: "\<exists>prices. prices_loop items acc = Some prices"
proof (induction items arbitrary: acc)
  case Nil
  then show ?case by simp
next
  case (Cons it items)
  show ?case
  proof (cases "(case item_deals it of None \<Rightarrow> [] | Some ds \<Rightarrow> ds) = []")
    case True
    then show ?thesis
      using Cons.IH [of acc] by (simp add: Let_def)
  next
    case False
    then obtain pd where
      "price_record it (case item_deals it of None \<Rightarrow> [] | Some ds \<Rightarrow> ds) = Some pd"
      using price_record_total by blast
    with False show ?thesis
      using Cons.IH [of "AList.update (item_id it) pd acc"] by (simp add: Let_def)
  qed
qed

lemma prices_loop_append:
  "prices_loop (xs @ ys) acc =
     (case prices_loop xs acc of None \<Rightarrow> None | Some a \<Rightarrow> prices_loop ys a)"
  by (induction xs arbitrary: acc) (auto simp: Let_def split: option.splits)

lemma prices_loop_other_key:
  assumes "\<forall>it \<in> set items. item_id it = k \<longrightarrow> item_deals it = None \<or> item_deals it = Some []"
      and "prices_loop items acc = Some prices"
  shows "map_of prices k = map_of acc k"
  using assms
proof (induction items arbitrary: acc)
  case Nil
  then show ?case by simp
next
  case (Cons it items)
  show ?case
  proof (cases "(case item_deals it of None \<Rightarrow> [] | Some ds \<Rightarrow> ds) = []")
    case True
    with Cons.prems have "prices_loop items acc = Some prices"
      by (simp add: Let_def)
    with Cons show ?thesis by simp
  next
    case False
    then have other: "item_id it \<noteq> k"
      using Cons.prems(1) by (auto split: option.splits)
    from False Cons.prems(2) obtain pd where
      rest: "prices_loop items (AList.update (item_id it) pd acc) = Some prices"
      by (auto simp: Let_def split: option.splits)
    have "map_of prices k = map_of (AList.update (item_id it) pd acc) k"
      using Cons.IH [OF _ rest] Cons.prems(1) by simp
    with other show ?thesis
      by (simp add: AList.update_conv')
  qed
qed

lemma prices_loop_keys:
  "prices_loop items acc = Some prices \<Longrightarrow>
   fst ` set prices
     = fst ` set acc \<union> {item_id it | it. it \<in> set items
                               \<and> (\<exists>ds. item_deals it = Some ds \<and> ds \<noteq> [])}"
proof (induction items arbitrary: acc)
  case Nil
  then show ?case by simp
next
  case (Cons it items)
  show ?case
  proof (cases "(case item_deals it of None \<Rightarrow> [] | Some ds \<Rightarrow> ds) = []")
    case True
    then have none: "\<not> (\<exists>ds. item_deals it = Some ds \<and> ds \<noteq> [])"
      by (auto split: option.splits)
    from True Cons.prems have "prices_loop items acc = Some prices"
      by (simp add: Let_def)
    then have "fst ` set prices
      = fst ` set acc \<union> {item_id it | it. it \<in> set items
                               \<and> (\<exists>ds. item_deals it = Some ds \<and> ds \<noteq> [])}"
      by (rule Cons.IH)
    with none show ?thesis by auto
  next
    case False
    then have some: "\<exists>ds. item_deals it = Some ds \<and> ds \<noteq> []"
      by (auto split: option.splits)
    from False Cons.prems obtain pd where
      rest: "prices_loop items (AList.update (item_id it) pd acc) = Some prices"
      by (auto simp: Let_def split: option.splits)
    have "fst ` set prices
      = fst ` set (AList.update (item_id it) pd acc)
          \<union> {item_id it | it. it \<in> set items
                               \<and> (\<exists>ds. item_deals it = Some ds \<and> ds \<noteq> [])}"
      using rest by (rule Cons.IH)
    with some show ?thesis
      by (auto simp: AList.dom_update)
  qed
qed

lemma prices_loop_record:
  assumes "items = pre @ it # post"
      and "item_deals it = Some deals" and "deals \<noteq> []"
      and "prices_loop items acc = Some prices"
      and "\<forall>it' \<in> set post. item_id it' = item_id it
             \<longrightarrow> item_deals it' = None \<or> item_deals it' = Some []"
  shows "map_of prices (item_id it) = price_record it deals"
proof -
  obtain a where a: "prices_loop pre acc = Some a"
    using prices_loop_total by blast
  obtain pd where pd: "price_record it deals = Some pd"
    using price_record_total [OF assms(3)] by blast
  have "prices_loop (it # post) a = Some prices"
    using assms(4) a by (simp add: assms(1) prices_loop_append)
  then have rest: "prices_loop post (AList.update (item_id it) pd a) = Some prices"
    using assms(2,3) pd by (simp add: Let_def)
  have "map_of prices (item_id it) = map_of (AList.update (item_id it) pd a) (item_id it)"
    using prices_loop_other_key [OF assms(5) rest] .
  then show ?thesis
    by (simp add: AList.update_conv' pd)
qed

lemma itad_get_prices_ok:
  "status_code (post_prices sv itad_ids (upper country)) = 200 \<Longrightarrow>
   prices_loop (json (post_prices sv itad_ids (upper country))) [] = Some prices \<Longrightarrow>
   snd (itad_get_prices sv itad_ids country w) = Inr prices"
  by (simp add: itad_get_prices_def Let_def)

lemma itad_get_prices_Inr:
  "snd (itad_get_prices sv itad_ids country w) = Inr prices \<Longrightarrow>
   status_code (post_prices sv itad_ids (upper country)) = 200
   \<and> prices_loop (json (post_prices sv itad_ids (upper country))) [] = Some prices"
  by (auto simp: itad_get_prices_def Let_def split: if_splits option.splits)

text \<open>
  C5. For every item of a successful pricing response with at least one offer, the
  aggregator builds the record of the item from one offer of the list: an offer whose
  current price is the lowest of the list, and the first such offer in response order,
  every offer before it having a strictly higher price. The mapping that the aggregator
  returns holds this record under the identifier of the item, unless a later item of the
  response with the same identifier and offers of its own has replaced it.
\<close>

theorem itad_get_prices_best_offer:
  assumes "status_code (post_prices sv itad_ids (upper country)) = 200"
      and "json (post_prices sv itad_ids (upper country)) = pre @ it # post"
      and "item_deals it = Some deals" and "deals \<noteq> []"
  shows "\<exists>i < length deals. \<exists>prices pd.
            min_py (\<lambda>d. amount (deal_price d)) deals = Some (deals ! i)
          \<and> (\<forall>j < length deals. amount (deal_price (deals ! i)) \<le> amount (deal_price (deals ! j)))
          \<and> (\<forall>j < i. amount (deal_price (deals ! i)) < amount (deal_price (deals ! j)))
          \<and> price_record it deals = Some pd
          \<and> current_price pd = amount (deal_price (deals ! i))
          \<and> regular_price pd = amount (deal_regular (deals ! i))
          \<and> store_low pd = map_option amount (deal_storeLow (deals ! i))
          \<and> snd (itad_get_prices sv itad_ids country w) = Inr prices
          \<and> ((\<forall>it' \<in> set post. item_id it' = item_id it
                  \<longrightarrow> item_deals it' = None \<or> item_deals it' = Some [])
               \<longrightarrow> map_of prices (item_id it) = Some pd)"
proof -
  obtain i where i: "i < length deals"
    "min_py (\<lambda>d. amount (deal_price d)) deals = Some (deals ! i)"
    "\<forall>j < length deals. amount (deal_price (deals ! i)) \<le> amount (deal_price (deals ! j))"
    "\<forall>j < i. amount (deal_price (deals ! i)) < amount (deal_price (deals ! j))"
    using min_py_first [OF assms(4), of "\<lambda>d. amount (deal_price d)"] by blast
  obtain prices where prices:
    "prices_loop (json (post_prices sv itad_ids (upper country))) [] = Some prices"
    using prices_loop_total by blast
  obtain pd where pd: "price_record it deals = Some pd"
    "current_price pd = amount (deal_price (deals ! i))"
    "regular_price pd = amount (deal_regular (deals ! i))"
    "store_low pd = map_option amount (deal_storeLow (deals ! i))"
    using price_record_of_best [OF i(2)] by blast
  have out: "snd (itad_get_prices sv itad_ids country w) = Inr prices"
    using assms(1) prices by (rule itad_get_prices_ok)
  have stored: "(\<forall>it' \<in> set post. item_id it' = item_id it
                  \<longrightarrow> item_deals it' = None \<or> item_deals it' = Some [])
               \<longrightarrow> map_of prices (item_id it) = Some pd"
    using prices_loop_record [OF assms(2,3,4) prices] pd(1) by simp
  from i pd out stored show ?thesis
    by (intro exI [of _ i] exI [of _ prices] exI [of _ pd]) simp
qed

lemma demo_record:
  "price_record item_u1 [deal_7, deal_5_bare, deal_5_cut] = Some pd_u1"
  by (simp add: price_record_def Let_def item_u1_def deal_7_def deal_5_bare_def deal_5_cut_def
      pd_u1_def)

lemma demo_items:
  "item_id item_u1 = Some ''u1''"
  "item_deals item_u1 = Some [deal_7, deal_5_bare, deal_5_cut]"
  "item_id item_u2 = Some ''u2''"
  "item_deals item_u2 = Some []"
  by (simp_all add: item_u1_def item_u2_def)

lemma demo_prices:
  "snd (itad_get_prices sv_demo [''u1'', ''u2''] ''br'' io_start) = Inr [(Some ''u1'', pd_u1)]"
  by (simp add: itad_get_prices_def sv_demo_def Let_def demo_record demo_items)

theorem itad_get_prices_best_offer_witness:
  "status_code (post_prices sv_demo [''u1'', ''u2''] (upper ''br'')) = 200
 \<and> json (post_prices sv_demo [''u1'', ''u2''] (upper ''br'')) = [] @ item_u1 # [item_u2]
 \<and> item_deals item_u1 = Some [deal_7, deal_5_bare, deal_5_cut]
 \<and> min_py (\<lambda>d. amount (deal_price d)) [deal_7, deal_5_bare, deal_5_cut] = Some deal_5_bare
 \<and> amount (deal_price deal_5_bare) = amount (deal_price deal_5_cut)
 \<and> price_record item_u1 [deal_7, deal_5_bare, deal_5_cut] = Some pd_u1
 \<and> current_price pd_u1 = 5
 \<and> snd (itad_get_prices sv_demo [''u1'', ''u2''] ''br'' io_start) = Inr [(Some ''u1'', pd_u1)]
 \<and> map_of [(Some ''u1'', pd_u1)] (item_id item_u1) = Some pd_u1"
  using itad_get_prices_best_offer
    [of sv_demo "[''u1'', ''u2'']" "''br''" "[]" item_u1 "[item_u2]"
        "[deal_7, deal_5_bare, deal_5_cut]" io_start]
  by (simp add: demo_prices demo_record)
     (simp add: sv_demo_def item_u1_def item_u2_def deal_7_def deal_5_bare_def deal_5_cut_def
        pd_u1_def)

text \<open>
  C7. When the aggregator returns a mapping, an identifier is a key of it exactly when
  some item of the response with this identifier has a non-empty list of offers. An
  identifier whose items all have no offers (the list empty or not there) has no entry:
  the lookup gives nothing, not a record of placeholders.
\<close>

theorem itad_get_prices_omits_empty:
  assumes "snd (itad_get_prices sv itad_ids country w) = Inr prices"
  shows "(\<forall>k. (k \<in> fst ` set prices) =
              (\<exists>it \<in> set (json (post_prices sv itad_ids (upper country))).
                 item_id it = k \<and> (\<exists>ds. item_deals it = Some ds \<and> ds \<noteq> [])))
       \<and> (\<forall>k. (\<forall>it \<in> set (json (post_prices sv itad_ids (upper country))).
                 item_id it = k \<longrightarrow> item_deals it = None \<or> item_deals it = Some [])
              \<longrightarrow> map_of prices k = None)"
proof -
  let ?items = "json (post_prices sv itad_ids (upper country))"
  have loop: "prices_loop ?items [] = Some prices"
    using itad_get_prices_Inr [OF assms] by simp
  have keys: "fst ` set prices
     = {item_id it | it. it \<in> set ?items \<and> (\<exists>ds. item_deals it = Some ds \<and> ds \<noteq> [])}"
    using prices_loop_keys [OF loop] by simp
  have first: "\<forall>k. (k \<in> fst ` set prices) =
              (\<exists>it \<in> set ?items. item_id it = k \<and> (\<exists>ds. item_deals it = Some ds \<and> ds \<noteq> []))"
    unfolding keys by blast
  have second: "\<forall>k. (\<forall>it \<in> set ?items.
                 item_id it = k \<longrightarrow> item_deals it = None \<or> item_deals it = Some [])
              \<longrightarrow> map_of prices k = None"
  proof (intro allI impI)
    fix k
    assume "\<forall>it \<in> set ?items. item_id it = k \<longrightarrow> item_deals it = None \<or> item_deals it = Some []"
    then have "map_of prices k = map_of [] k"
      using loop by (rule prices_loop_other_key)
    then show "map_of prices k = None"
      by simp
  qed
  from first second show ?thesis
    by blast
qed

theorem itad_get_prices_omits_empty_witness:
  "snd (itad_get_prices sv_demo [''u1'', ''u2''] ''br'' io_start) = Inr [(Some ''u1'', pd_u1)]
 \<and> item_u2 \<in> set (json (post_prices sv_demo [''u1'', ''u2''] (upper ''br'')))
 \<and> item_id item_u2 = Some ''u2'' \<and> item_deals item_u2 = Some []
 \<and> Some ''u2'' \<notin> fst ` set [(Some ''u1'', pd_u1)]
 \<and> map_of [(Some ''u1'', pd_u1)] (Some ''u2'') = None"
  using itad_get_prices_omits_empty
    [of sv_demo "[''u1'', ''u2'']" "''br''" io_start "[(Some ''u1'', pd_u1)]"]
  by (simp add: demo_prices)
     (simp add: sv_demo_def item_u1_def item_u2_def)

text \<open>
  C9. When the best offer of an item has no \<open>cut\<close> member, the aggregator does not fail
  and the record of the item has discount 0; when the member is there, the record has its
  value. In the same way an offer without \<open>url\<close> gives the empty string. The mapping
  that the aggregator returns holds this record under the identifier of the item, unless
  a later item with the same identifier and offers of its own has replaced it.
\<close>

theorem itad_get_prices_absent_cut_url:
  assumes "status_code (post_prices sv itad_ids (upper country)) = 200"
      and "json (post_prices sv itad_ids (upper country)) = pre @ it # post"
      and "item_deals it = Some deals"
      and "min_py (\<lambda>d. amount (deal_price d)) deals = Some best"
  shows "\<exists>prices pd.
            price_record it deals = Some pd
          \<and> (deal_cut best = None \<longrightarrow> discount_percent pd = 0)
          \<and> (\<forall>c. deal_cut best = Some c \<longrightarrow> discount_percent pd = c)
          \<and> (deal_url best = None \<longrightarrow> url pd = '''')
          \<and> (\<forall>u. deal_url best = Some u \<longrightarrow> url pd = u)
          \<and> snd (itad_get_prices sv itad_ids country w) = Inr prices
          \<and> ((\<forall>it' \<in> set post. item_id it' = item_id it
                  \<longrightarrow> item_deals it' = None \<or> item_deals it' = Some [])
               \<longrightarrow> map_of prices (item_id it) = Some pd)"
proof -
  have nonempty: "deals \<noteq> []"
    using assms(4) by (cases deals) auto
  obtain prices where prices:
    "prices_loop (json (post_prices sv itad_ids (upper country))) [] = Some prices"
    using prices_loop_total by blast
  obtain pd where pd: "price_record it deals = Some pd"
    "discount_percent pd = (case deal_cut best of None \<Rightarrow> 0 | Some c \<Rightarrow> c)"
    "url pd = (case deal_url best of None \<Rightarrow> [] | Some u \<Rightarrow> u)"
    using price_record_of_best [OF assms(4)] by blast
  have out: "snd (itad_get_prices sv itad_ids country w) = Inr prices"
    using assms(1) prices by (rule itad_get_prices_ok)
  have stored: "(\<forall>it' \<in> set post. item_id it' = item_id it
                  \<longrightarrow> item_deals it' = None \<or> item_deals it' = Some [])
               \<longrightarrow> map_of prices (item_id it) = Some pd"
    using prices_loop_record [OF assms(2,3) nonempty prices] pd(1) by simp
  from pd out stored show ?thesis
    by (intro exI [of _ prices] exI [of _ pd]) (simp split: option.splits)
qed

theorem itad_get_prices_absent_cut_url_witness:
  "status_code (post_prices sv_demo [''u1'', ''u2''] (upper ''br'')) = 200
 \<and> json (post_prices sv_demo [''u1'', ''u2''] (upper ''br'')) = [] @ item_u1 # [item_u2]
 \<and> item_deals item_u1 = Some [deal_7, deal_5_bare, deal_5_cut]
 \<and> min_py (\<lambda>d. amount (deal_price d)) [deal_7, deal_5_bare, deal_5_cut] = Some deal_5_bare
 \<and> deal_cut deal_5_bare = None \<and> deal_url deal_5_bare = None
 \<and> price_record item_u1 [deal_7, deal_5_bare, deal_5_cut] = Some pd_u1
 \<and> discount_percent pd_u1 = 0 \<and> url pd_u1 = ''''
 \<and> snd (itad_get_prices sv_demo [''u1'', ''u2''] ''br'' io_start) = Inr [(Some ''u1'', pd_u1)]"
  using itad_get_prices_absent_cut_url
    [of sv_demo "[''u1'', ''u2'']" "''br''" "[]" item_u1 "[item_u2]"
        "[deal_7, deal_5_bare, deal_5_cut]" deal_5_bare io_start]
  by (simp add: demo_prices demo_record)
     (simp add: sv_demo_def item_u1_def item_u2_def deal_7_def deal_5_bare_def deal_5_cut_def
        pd_u1_def)

section \<open>Properties of the resolver and of the run\<close>

text \<open>
  C3, as stated, fails: the resolver has no test of its input and sends its request also
  for the empty list. On the empty list and a fresh log the log of requests is not what
  it was.
\<close>

theorem itad_lookup_ids_empty_counterexample:
  "requests (fst (itad_lookup_ids sv_demo [] io_start)) \<noteq> requests io_start"
  by (simp add: itad_lookup_ids_def Let_def send_def print_def io_start_def)

text \<open>
  C3, amended. On the empty list of identifiers the resolver sends exactly one batch
  request, with the empty list of shop identifiers. When the service answers with status
  200 and an empty object the resolver returns the empty mapping; when it answers with
  another status the resolver exits with status 1.
\<close>

theorem itad_lookup_ids_empty:
  "requests (fst (itad_lookup_ids sv [] w)) = requests w @ [POST_lookup []]
 \<and> (status_code (post_lookup sv []) = 200 \<and> json (post_lookup sv []) = []
      \<longrightarrow> snd (itad_lookup_ids sv [] w) = Inr [])
 \<and> (status_code (post_lookup sv []) \<noteq> 200
      \<longrightarrow> snd (itad_lookup_ids sv [] w) = Inl (Exit 1))"
  by (simp add: itad_lookup_ids_def Let_def send_def print_def)

theorem itad_lookup_ids_empty_witness:
  "status_code (post_lookup sv_demo []) = 200 \<and> json (post_lookup sv_demo []) = []
 \<and> snd (itad_lookup_ids sv_demo [] io_start) = Inr []
 \<and> requests (fst (itad_lookup_ids sv_demo [] io_start)) = [POST_lookup []]"
  using itad_lookup_ids_empty [of sv_demo io_start]
  by (simp add: sv_demo_def io_start_def)

lemma requests_print: "requests (print msg w) = requests w"
  by (simp add: print_def)

lemma requests_send: "requests (send rq w) = requests w @ [rq]"
  by (simp add: send_def)

lemma names_loop_requests:
  "requests (fst (names_loop sv app_ids games w)) = requests w @ map GET_appdetails app_ids"
  by (induction app_ids arbitrary: games w) (simp_all add: Let_def requests_send)

lemma fetch_steam_wishlist_requests:
  "\<exists>app_ids. requests (fst (fetch_steam_wishlist sv steam_id w))
      = requests w @ GET_wishlist steam_id # map GET_appdetails app_ids"
proof (cases "status_code (get_wishlist sv steam_id) \<noteq> 200 \<or> json (get_wishlist sv steam_id) = []")
  case True
  then have "requests (fst (fetch_steam_wishlist sv steam_id w))
      = requests w @ GET_wishlist steam_id # map GET_appdetails []"
    by (auto simp: fetch_steam_wishlist_def Let_def requests_send requests_print)
  then show ?thesis by blast
next
  case False
  let ?ids = "map (\<lambda>i. str_of_int (the (wl_appid i)))
                (filter (\<lambda>i. wl_appid i \<noteq> None) (json (get_wishlist sv steam_id)))"
  have "requests (fst (fetch_steam_wishlist sv steam_id w))
      = requests w @ GET_wishlist steam_id # map GET_appdetails ?ids"
    using False
    by (simp add: fetch_steam_wishlist_def Let_def case_prod_beta names_loop_requests
        requests_send requests_print)
  then show ?thesis by blast
qed

lemma itad_lookup_ids_requests:
  "requests (fst (itad_lookup_ids sv app_ids w))
     = requests w @ [POST_lookup (map (\<lambda>app_id. ''app/'' @ app_id) app_ids)]"
  by (simp add: itad_lookup_ids_def Let_def requests_send requests_print)

text \<open>
  C1, amended. In a run with all three settings present, a wishlist that is not empty and
  a resolver that returns the empty mapping, \<open>main\<close> prints, in red, that no games were
  resolved and that the API key should be checked, and exits with status 1. No request
  to the price service is sent in such a run.
\<close>

theorem main_none_resolved:
  assumes "\<not> unset (STEAM_ID cfg)" and "\<not> unset (STEAM_API_KEY cfg)"
      and "\<not> unset (ITAD_API_KEY cfg)"
      and "fetch_steam_wishlist sv (the (STEAM_ID cfg)) w = (w1, Inr wishlist)"
      and "wishlist \<noteq> []"
      and "itad_lookup_ids sv (map fst wishlist)
             (print ''[cyan]Resolving ITAD game IDs...[/cyan]'' w1) = (w3, Inr [])"
  shows "main cfg sv sort_by w
           = (print ''[red]No games resolved via ITAD. Check your API key.[/red]'' w3,
              Inl (Exit 1))
       \<and> (\<forall>ids c. POST_prices ids c \<notin> set (requests w)
             \<longrightarrow> POST_prices ids c \<notin> set (requests (fst (main cfg sv sort_by w))))"
proof -
  have run: "main cfg sv sort_by w
           = (print ''[red]No games resolved via ITAD. Check your API key.[/red]'' w3,
              Inl (Exit 1))"
    using assms by (simp add: main_def Let_def)
  obtain app_ids where w1: "requests w1
      = requests w @ GET_wishlist (the (STEAM_ID cfg)) # map GET_appdetails app_ids"
    using fetch_steam_wishlist_requests [of sv "the (STEAM_ID cfg)" w] assms(4) by auto
  have w3: "requests w3
      = requests w1 @ [POST_lookup (map (\<lambda>app_id. ''app/'' @ app_id) (map fst wishlist))]"
    using itad_lookup_ids_requests
      [of sv "map fst wishlist" "print ''[cyan]Resolving ITAD game IDs...[/cyan]'' w1"]
      assms(6)
    by (simp add: requests_print)
  have "\<forall>ids c. POST_prices ids c \<notin> set (requests w)
             \<longrightarrow> POST_prices ids c \<notin> set (requests (fst (main cfg sv sort_by w)))"
    by (auto simp: run requests_print w3 w1)
  with run show ?thesis
    by blast
qed

lemma str_of_int_20: "str_of_int 20 = ''20''"
  by code_simp

lemma str_of_nat_1: "str_of_nat (Suc 0) = ''1''"
  by code_simp

lemma demo_wishlist:
  "fetch_steam_wishlist sv_demo (the (STEAM_ID cfg_demo)) io_start
     = (\<lparr>requests = [GET_wishlist ''76561198000000000'', GET_appdetails ''20''],
         console = [''[cyan]Fetching Steam wishlist for ID:[/cyan] 76561198000000000'',
                    ''[green]Found 1 games in wishlist.[/green]'',
                    ''[cyan]Resolving game names...[/cyan]'']\<rparr>,
        Inr [(''20'', ''Beta'')])"
  by (simp add: fetch_steam_wishlist_def sv_demo_def cfg_demo_def io_start_def Let_def
      send_def print_def str_of_int_20 str_of_nat_1)

text \<open>
  C1, as stated, fails: with one wishlisted application that the mapping service does not
  know, the resolver returns the empty mapping and the run ends with exit status 1, not
  with the status 0 of a successful end.
\<close>

theorem main_none_resolved_counterexample:
  "snd (itad_lookup_ids sv_demo [''20''] io_start) = Inr []
 \<and> snd (main cfg_demo sv_demo ''deal'' io_start) = Inl (Exit 1)
 \<and> snd (main cfg_demo sv_demo ''deal'' io_start) \<noteq> Inl (Exit 0)"
  by (simp add: main_def demo_wishlist itad_lookup_ids_def Let_def unset_def)
     (simp add: sv_demo_def cfg_demo_def)

theorem main_none_resolved_witness:
  "\<not> unset (STEAM_ID cfg_demo) \<and> \<not> unset (STEAM_API_KEY cfg_demo)
 \<and> \<not> unset (ITAD_API_KEY cfg_demo)
 \<and> snd (fetch_steam_wishlist sv_demo (the (STEAM_ID cfg_demo)) io_start)
      = Inr [(''20'', ''Beta'')]
 \<and> snd (itad_lookup_ids sv_demo [''20'']
           (print ''[cyan]Resolving ITAD game IDs...[/cyan]''
              (fst (fetch_steam_wishlist sv_demo (the (STEAM_ID cfg_demo)) io_start))))
      = Inr []
 \<and> snd (main cfg_demo sv_demo ''deal'' io_start) = Inl (Exit 1)
 \<and> last (console (fst (main cfg_demo sv_demo ''deal'' io_start)))
      = ''[red]No games resolved via ITAD. Check your API key.[/red]''
 \<and> requests (fst (main cfg_demo sv_demo ''deal'' io_start))
      = [GET_wishlist ''76561198000000000'', GET_appdetails ''20'',
         POST_lookup [''app/20'']]"
  using main_none_resolved
    [of cfg_demo sv_demo io_start
        "fst (fetch_steam_wishlist sv_demo (the (STEAM_ID cfg_demo)) io_start)"
        "[(''20'', ''Beta'')]"
        "fst (itad_lookup_ids sv_demo [''20'']
           (print ''[cyan]Resolving ITAD game IDs...[/cyan]''
              (fst (fetch_steam_wishlist sv_demo (the (STEAM_ID cfg_demo)) io_start))))"
        "''deal''"]
  by (simp add: demo_wishlist itad_lookup_ids_def Let_def unset_def send_def print_def)
     (simp add: sv_demo_def cfg_demo_def)

section \<open>Properties of the owned-library table\<close>

lemma fst_game_row: "fst (game_row manifest_exists g) = game_appid g"
  by (simp add: game_row_def Let_def)

lemma insert_or_replace_append:
  "insert_or_replace r (t @ u) = filter (\<lambda>x. fst x \<noteq> fst r) t @ insert_or_replace r u"
  by (simp add: insert_or_replace_def)

lemma upsert_loop_append:
  "upsert_loop manifest_exists games (t @ u)
     = filter (\<lambda>x. fst x \<notin> game_appid ` set games) t @ upsert_loop manifest_exists games u"
proof (induction games arbitrary: t u)
  case Nil
  then show ?case by simp
next
  case (Cons g games)
  have "filter (\<lambda>x. fst x \<notin> game_appid ` set games) (filter (\<lambda>x. fst x \<noteq> game_appid g) t)
          = filter (\<lambda>x. fst x \<notin> game_appid ` set (g # games)) t"
    by (induction t) auto
  then show ?case
    by (simp add: insert_or_replace_append fst_game_row Cons.IH)
qed

lemma keys_insert_or_replace:
  "fst ` set (insert_or_replace r t) = insert (fst r) (fst ` set t)"
  by (auto simp: insert_or_replace_def)

lemma keys_upsert_loop:
  "fst ` set (upsert_loop manifest_exists games t) = fst ` set t \<union> game_appid ` set games"
  by (induction games arbitrary: t) (auto simp: keys_insert_or_replace fst_game_row)

lemma distinct_insert_or_replace:
  "distinct (map fst t) \<Longrightarrow> distinct (map fst (insert_or_replace r t))"
  by (auto simp: insert_or_replace_def distinct_map_filter)

lemma distinct_upsert_loop:
  "distinct (map fst t) \<Longrightarrow> distinct (map fst (upsert_loop manifest_exists games t))"
  by (induction games arbitrary: t) (simp_all add: distinct_insert_or_replace)

lemma upsert_loop_idem:
  "upsert_loop manifest_exists games (upsert_loop manifest_exists games t)
     = upsert_loop manifest_exists games t"
proof -
  let ?keep = "filter (\<lambda>x. fst x \<notin> game_appid ` set games)"
  let ?new = "upsert_loop manifest_exists games []"
  have once: "upsert_loop manifest_exists games t = ?keep t @ ?new"
    using upsert_loop_append [of manifest_exists games t "[]"] by simp
  have "fst ` set ?new = game_appid ` set games"
    by (simp add: keys_upsert_loop)
  then have gone: "?keep ?new = []"
    by (auto simp: filter_empty_conv)
  have "upsert_loop manifest_exists games ?new = ?keep ?new @ ?new"
    using upsert_loop_append [of manifest_exists games ?new "[]"] by simp
  then have again: "upsert_loop manifest_exists games ?new = ?new"
    by (simp add: gone)
  have "upsert_loop manifest_exists games (?keep t @ ?new)
          = ?keep (?keep t) @ upsert_loop manifest_exists games ?new"
    by (rule upsert_loop_append)
  also have "\<dots> = ?keep t @ ?new"
    by (simp add: again)
  finally show ?thesis
    by (simp add: once)
qed

text \<open>
  C10, amended. When the table has at most one row per appid before a run (as the primary
  key ensures, and as holds before the table exists), it has at most one row per appid
  after the run, whether the run ends normally or with an exception. Running the script
  again on the same response of the service and with the same manifest files on disk
  leaves the table as the first run left it.
\<close>

theorem sync_upsert:
  assumes "pk_unique d"
  shows "pk_unique (fst (sync api_key steam_id response manifest_exists d))
       \<and> fst (sync api_key steam_id response manifest_exists
                (fst (sync api_key steam_id response manifest_exists d)))
           = fst (sync api_key steam_id response manifest_exists d)"
proof (cases "unset api_key \<or> unset steam_id
                \<or> 400 \<le> status_code response \<and> status_code response < 600")
  case True
  then have "fst (sync api_key steam_id response manifest_exists d') = d'" for d'
    by (auto simp: sync_def)
  with assms show ?thesis
    by simp
next
  case False
  let ?games = "case json response of None \<Rightarrow> [] | Some gs \<Rightarrow> gs"
  have run: "fst (sync api_key steam_id response manifest_exists d')
               = Some (upsert_loop manifest_exists ?games (create_table_if_not_exists d'))" for d'
    using False by (auto simp: sync_def Let_def)
  have "distinct (map fst (create_table_if_not_exists d))"
    using assms by (simp add: pk_unique_def create_table_if_not_exists_def split: option.splits)
  then have unique: "pk_unique (fst (sync api_key steam_id response manifest_exists d))"
    by (simp add: run pk_unique_def distinct_upsert_loop)
  have "fst (sync api_key steam_id response manifest_exists
                (fst (sync api_key steam_id response manifest_exists d)))
           = fst (sync api_key steam_id response manifest_exists d)"
    by (simp add: run create_table_if_not_exists_def upsert_loop_idem)
  with unique show ?thesis
    by simp
qed

theorem sync_upsert_witness:
  "pk_unique None
 \<and> fst (sync (Some ''key'') (Some ''id'') owned_response no_manifest None)
      = Some [(400, ''Portal'', 120, 0, 0)]
 \<and> fst (sync (Some ''key'') (Some ''id'') owned_response no_manifest
           (Some [(400, ''Portal'', 120, 0, 0)]))
      = Some [(400, ''Portal'', 120, 0, 0)]
 \<and> pk_unique (Some [(400, ''Portal'', 120, 0, 0)])"
  using sync_upsert [of None "Some ''key''" "Some ''id''" owned_response no_manifest]
  by (simp add: sync_def Let_def unset_def owned_response_def game_portal_def no_manifest_def
      create_table_if_not_exists_def insert_or_replace_def game_row_def pk_unique_def)

text \<open>
  C10, as stated, fails: the column \<open>installed\<close> is read from the manifest files on disk,
  not from the service. With the same response of the service, a second run after the
  manifest of the application has appeared changes the row that the first run wrote.
\<close>

theorem sync_rerun_counterexample:
  "fst (sync (Some ''key'') (Some ''id'') owned_response no_manifest None)
     = Some [(400, ''Portal'', 120, 0, 0)]
 \<and> fst (sync (Some ''key'') (Some ''id'') owned_response portal_manifest
          (fst (sync (Some ''key'') (Some ''id'') owned_response no_manifest None)))
     = Some [(400, ''Portal'', 120, 0, 1)]"
  by (simp add: sync_def Let_def unset_def owned_response_def game_portal_def no_manifest_def
      portal_manifest_def create_table_if_not_exists_def insert_or_replace_def game_row_def)

end
